theory Spec2Isabelle
  imports Complex_Main
begin

section \<open>The PID controller of wpilib/pidcontroller.py\<close>

text \<open>
  The controller object is a record of the attributes that \<open>__init__\<close> creates, every
  method is a function from the controller to the controller it leaves behind, and a
  method that can raise returns the exception beside the state at the moment of the
  raise. Python's numbers are taken as \<^typ>\<open>real\<close>: sums, products and quotients are
  exact, and a division is only ever reached behind the source's own zero test. A
  call runs from start to end on its own: what another thread does between the two
  locked sections of a tick, or between a tick's last locked section and its call of the
  output, is outside the model.
  The network-table entries are \<open>None\<close> until \<open>initTable\<close> is called and are left out.
\<close>

subsection \<open>Data\<close>

datatype PIDSourceType = kDisplacement | kRate

text \<open>
  The source object, as gyrobase.py has it: the attribute \<open>pidSource\<close> holds its kind.
  Its reading \<open>pidGet()\<close> comes from the hardware and is an argument of every function
  that asks for it.
\<close>

record PIDSource =
  pidSource :: PIDSourceType

definition getPIDSourceType :: "PIDSource \<Rightarrow> PIDSourceType" where
  "getPIDSourceType src = pidSource src"

text \<open>
  \<open>collections.deque\<close> with a \<open>maxlen\<close>: the oldest element is first, \<open>append\<close> adds at
  the right end and, once the deque is full, drops from the left end.
\<close>

record deque =
  elems :: "real list"
  maxlen :: nat

definition deque_new :: "real list \<Rightarrow> nat \<Rightarrow> deque" where
  "deque_new xs n = \<lparr>elems = drop (length xs - n) xs, maxlen = n\<rparr>"

definition deque_append :: "real \<Rightarrow> deque \<Rightarrow> deque" where
  "deque_append x d =
     (let ys = elems d @ [x] in d\<lparr>elems := drop (length ys - maxlen d) ys\<rparr>)"

definition deque_clear :: "deque \<Rightarrow> deque" where
  "deque_clear d = d\<lparr>elems := []\<rparr>"

text \<open>\<open>itertools.islice(it, n)\<close>: the first \<open>n\<close> elements that \<open>it\<close> yields.\<close>

definition islice :: "'a list \<Rightarrow> nat \<Rightarrow> 'a list" where
  "islice xs n = take n xs"

text \<open>
  The tolerance installed in the instance attribute \<open>onTarget\<close> by
  \<open>setAbsoluteTolerance\<close> or \<open>setPercentTolerance\<close>; without one, the class's own
  \<open>onTarget\<close> is what a call reaches.
\<close>

datatype Tolerance = AbsoluteTolerance real | PercentageTolerance real

datatype error = ValueError | TypeError | AttributeError

text \<open>
  The output is a callable; it is represented by the list of the values it has been
  called with, oldest first. \<open>None\<close> is what \<open>free\<close> leaves in \<open>pidInput\<close> and
  \<open>pidOutput\<close>.

  Modelled from the spec: the class \<open>Timer\<close> (wpilib/timer.py) is not among the sources.
  The setpoint timer measures the time elapsed since the last setpoint change and can be
  reset: \<open>setpointTimer\<close> holds the clock value at its last reset, and the clock value
  \<open>now\<close> is an argument of every function that reads or resets the timer.
\<close>

record PIDController =
  P :: real
  I :: real
  D :: real
  F :: real
  pidOutput :: "real list option"
  pidInput :: "PIDSource option"
  period :: real
  maximumOutput :: real
  minimumOutput :: real
  maximumInput :: real
  minimumInput :: real
  continuous_flag :: bool
  enabled :: bool
  prevError :: real
  totalError :: real
  buf :: deque
  setpoint :: real
  prevSetpoint :: real
  error :: real
  result :: real
  onTarget_attr :: "Tolerance option"
  setpointTimer :: real

definition Timer_get :: "real \<Rightarrow> real \<Rightarrow> real" where
  "Timer_get now start = now - start"

definition Timer_reset :: "real \<Rightarrow> real" where
  "Timer_reset now = now"

definition kDefaultPeriod :: real where
  "kDefaultPeriod = 0.05"

text \<open>\<open>__init__\<close>, after the argument list has been matched.\<close>

definition init :: "real \<Rightarrow> real \<Rightarrow> real \<Rightarrow> real \<Rightarrow> PIDSource \<Rightarrow> real \<Rightarrow> real \<Rightarrow> PIDController" where
  "init Kp Ki Kd Kf source per now =
     \<lparr>P = Kp, I = Ki, D = Kd, F = Kf,
      pidOutput = Some [], pidInput = Some source, period = per,
      maximumOutput = 1.0, minimumOutput = -1.0,
      maximumInput = 0.0, minimumInput = 0.0,
      continuous_flag = False, enabled = False,
      prevError = 0.0, totalError = 0.0,
      buf = deque_new [] 1,
      setpoint = 0.0, prevSetpoint = 0.0, error = 0.0, result = 0.0,
      onTarget_attr = None,
      setpointTimer = Timer_reset now\<rparr>"

definition free :: "PIDController \<Rightarrow> PIDController" where
  "free s = s\<lparr>pidInput := None, pidOutput := None\<rparr>"

subsection \<open>Pure helpers\<close>

definition clamp :: "real \<Rightarrow> real \<Rightarrow> real \<Rightarrow> real" where
  "clamp v low high = max low (min v high)"

definition getContinuousError :: "PIDController \<Rightarrow> real \<Rightarrow> real" where
  "getContinuousError s e =
     (if continuous_flag s \<and> \<bar>e\<bar> > (maximumInput s - minimumInput s) / 2 then
        (if e > 0 then e - (maximumInput s - minimumInput s)
         else e + (maximumInput s - minimumInput s))
      else e)"

subsection \<open>Configuration\<close>

definition setContinuous :: "bool \<Rightarrow> PIDController \<Rightarrow> PIDController" where
  "setContinuous c s = s\<lparr>continuous_flag := c\<rparr>"

definition setSetpoint :: "real \<Rightarrow> PIDController \<Rightarrow> PIDController" where
  "setSetpoint v s =
     (let newsetpoint =
        (if maximumInput s > minimumInput s then
           (if v > maximumInput s then maximumInput s
            else if v < minimumInput s then minimumInput s
            else v)
         else v)
      in s\<lparr>setpoint := newsetpoint, buf := deque_clear (buf s), totalError := 0\<rparr>)"

text \<open>
  A raise is \<open>Inl\<close> beside the controller as the raise finds it; both range setters test
  their arguments before the first assignment.
\<close>

definition setInputRange :: "real \<Rightarrow> real \<Rightarrow> PIDController \<Rightarrow> (error + unit) \<times> PIDController" where
  "setInputRange minimumInput' maximumInput' s =
     (if minimumInput' > maximumInput' then (Inl ValueError, s)
      else
        (let s1 = s\<lparr>minimumInput := minimumInput'\<rparr>;
             s2 = s1\<lparr>maximumInput := maximumInput'\<rparr>
         in (Inr (), setSetpoint (setpoint s2) s2)))"

definition setOutputRange :: "real \<Rightarrow> real \<Rightarrow> PIDController \<Rightarrow> (error + unit) \<times> PIDController" where
  "setOutputRange minimumOutput' maximumOutput' s =
     (if minimumOutput' > maximumOutput' then (Inl ValueError, s)
      else
        (let s1 = s\<lparr>minimumOutput := minimumOutput'\<rparr>;
             s2 = s1\<lparr>maximumOutput := maximumOutput'\<rparr>
         in (Inr (), s2)))"

definition getSetpoint :: "PIDController \<Rightarrow> real" where
  "getSetpoint s = setpoint s"

definition getDeltaSetpoint :: "real \<Rightarrow> PIDController \<Rightarrow> real" where
  "getDeltaSetpoint now s =
     (let t = Timer_get now (setpointTimer s)
      in if t \<noteq> 0 then (setpoint s - prevSetpoint s) / t else 0.0)"

subsection \<open>The error history and the tolerance\<close>

definition getAvgError :: "PIDController \<Rightarrow> real" where
  "getAvgError s =
     (let l = length (elems (buf s))
      in if l = 0 then 0 else sum_list (elems (buf s)) / real l)"

definition isAvgErrorValid :: "PIDController \<Rightarrow> bool" where
  "isAvgErrorValid s = (length (elems (buf s)) \<noteq> 0)"

definition PercentageTolerance_onTarget :: "PIDController \<Rightarrow> real \<Rightarrow> bool" where
  "PercentageTolerance_onTarget s percentage =
     (isAvgErrorValid s \<and>
      \<bar>getAvgError s\<bar> < percentage / 100.0 * (maximumInput s - minimumInput s))"

definition AbsoluteTolerance_onTarget :: "PIDController \<Rightarrow> real \<Rightarrow> bool" where
  "AbsoluteTolerance_onTarget s v = (isAvgErrorValid s \<and> \<bar>getAvgError s\<bar> < v)"

definition setAbsoluteTolerance :: "real \<Rightarrow> PIDController \<Rightarrow> PIDController" where
  "setAbsoluteTolerance absvalue s = s\<lparr>onTarget_attr := Some (AbsoluteTolerance absvalue)\<rparr>"

definition setPercentTolerance :: "real \<Rightarrow> PIDController \<Rightarrow> PIDController" where
  "setPercentTolerance percentage s =
     s\<lparr>onTarget_attr := Some (PercentageTolerance percentage)\<rparr>"

definition setToleranceBuffer :: "nat \<Rightarrow> PIDController \<Rightarrow> PIDController" where
  "setToleranceBuffer bufLength s =
     s\<lparr>buf := deque_new (islice (elems (buf s)) bufLength) bufLength\<rparr>"

definition onTarget :: "PIDController \<Rightarrow> error + bool" where
  "onTarget s =
     (case onTarget_attr s of
        None \<Rightarrow> Inl ValueError
      | Some (AbsoluteTolerance absvalue) \<Rightarrow> Inr (AbsoluteTolerance_onTarget s absvalue)
      | Some (PercentageTolerance percentage) \<Rightarrow>
          Inr (PercentageTolerance_onTarget s percentage))"

subsection \<open>Enabling, disabling, resetting\<close>

definition enable :: "PIDController \<Rightarrow> PIDController" where
  "enable s = s\<lparr>enabled := True\<rparr>"

text \<open>Calling \<open>self.pidOutput(0)\<close> when \<open>free\<close> has put \<open>None\<close> there is a \<open>TypeError\<close>.\<close>

definition disable :: "PIDController \<Rightarrow> (error + unit) \<times> PIDController" where
  "disable s =
     (case pidOutput s of
        None \<Rightarrow> (Inl TypeError, s)
      | Some written \<Rightarrow>
          (let s1 = s\<lparr>pidOutput := Some (written @ [0])\<rparr>;
               s2 = s1\<lparr>enabled := False\<rparr>
           in (Inr (), s2)))"

definition isEnabled :: "PIDController \<Rightarrow> bool" where
  "isEnabled s = enabled s"

definition reset :: "PIDController \<Rightarrow> (error + unit) \<times> PIDController" where
  "reset s =
     (case disable s of
        (Inl e, s1) \<Rightarrow> (Inl e, s1)
      | (Inr u, s1) \<Rightarrow> (Inr (), s1\<lparr>prevError := 0, totalError := 0, result := 0\<rparr>))"

subsection \<open>The compute step\<close>

text \<open>
  \<open>self.pidInput.getPIDSourceType()\<close> on a freed controller is an \<open>AttributeError\<close>.
\<close>

definition calculateFeedForward :: "real \<Rightarrow> PIDController \<Rightarrow> (error + real) \<times> PIDController" where
  "calculateFeedForward now s =
     (case pidInput s of
        None \<Rightarrow> (Inl AttributeError, s)
      | Some src \<Rightarrow>
          if getPIDSourceType src = kRate then (Inr (F s * getSetpoint s), s)
          else
            (let temp = F s * getDeltaSetpoint now s;
                 s1 = s\<lparr>prevSetpoint := setpoint s\<rparr>;
                 s2 = s1\<lparr>setpointTimer := Timer_reset now\<rparr>
             in (Inr temp, s2)))"

text \<open>
  One tick of the periodic task. \<open>input\<close> is what \<open>pidGet()\<close> returns at this tick and
  \<open>now\<close> is the clock. The value handed to the output is appended to \<open>pidOutput\<close>.
\<close>

definition calculate :: "real \<Rightarrow> real \<Rightarrow> PIDController \<Rightarrow> (error + unit) \<times> PIDController" where
  "calculate input now s =
     (case pidInput s of
        None \<Rightarrow> (Inr (), s)
      | Some src \<Rightarrow>
     (case pidOutput s of
        None \<Rightarrow> (Inr (), s)
      | Some written \<Rightarrow>
          if enabled s then
            (let s1 = s\<lparr>error := getContinuousError s (setpoint s - input)\<rparr>;
                 r =
                   (if getPIDSourceType src = kRate then
                      (let s2 =
                         (if P s1 \<noteq> 0 then
                            s1\<lparr>totalError := clamp (totalError s1 + error s1)
                                  (minimumOutput s1 / P s1) (maximumOutput s1 / P s1)\<rparr>
                          else s1)
                       in case calculateFeedForward now s2 of
                            (Inl e, s3) \<Rightarrow> (Inl e, s3)
                          | (Inr ff, s3) \<Rightarrow>
                              (Inr (), s3\<lparr>result := P s2 * totalError s2 + D s2 * error s2 + ff\<rparr>))
                    else
                      (let s2 =
                         (if I s1 \<noteq> 0 then
                            s1\<lparr>totalError := clamp (totalError s1 + error s1)
                                  (minimumOutput s1 / I s1) (maximumOutput s1 / I s1)\<rparr>
                          else s1)
                       in case calculateFeedForward now s2 of
                            (Inl e, s3) \<Rightarrow> (Inl e, s3)
                          | (Inr ff, s3) \<Rightarrow>
                              (Inr (), s3\<lparr>result := P s2 * error s2 + I s2 * totalError s2
                                  + D s2 * (error s2 - prevError s2) + ff\<rparr>)))
             in case r of
                  (Inl e, s4) \<Rightarrow> (Inl e, s4)
                | (Inr u, s4) \<Rightarrow>
                    (let s5 = s4\<lparr>prevError := error s4\<rparr>;
                         s6 = s5\<lparr>result := clamp (result s5) (minimumOutput s5) (maximumOutput s5)\<rparr>;
                         s7 = s6\<lparr>buf := deque_append (error s6) (buf s6)\<rparr>
                     in (Inr (), s7\<lparr>pidOutput := Some (written @ [result s6])\<rparr>)))
          else (Inr (), s)))"


subsection \<open>Example controllers\<close>

text \<open>
  Controllers built with the constructor and the public methods, on which the theorems
  below are run.
\<close>

definition rate_source :: PIDSource where
  "rate_source = \<lparr>pidSource = kRate\<rparr>"

definition angle_source :: PIDSource where
  "angle_source = \<lparr>pidSource = kDisplacement\<rparr>"

definition rate_ctrl_P0 :: PIDController where
  "rate_ctrl_P0 = enable (setSetpoint 1 (init 0 0 0 0 rate_source kDefaultPeriod 0))"

definition rate_ctrl :: PIDController where
  "rate_ctrl = enable (setSetpoint 1 (init 2 0 0 0 rate_source kDefaultPeriod 0))"

definition angle_ctrl :: PIDController where
  "angle_ctrl = enable (setSetpoint 10 (init 1 0 0 0 angle_source kDefaultPeriod 0))"

definition wrap_ctrl :: PIDController where
  "wrap_ctrl =
     setContinuous True (snd (setInputRange 0 360 (init 1 0 0 0 angle_source kDefaultPeriod 0)))"

definition sample_ctrl :: "real \<Rightarrow> PIDController" where
  "sample_ctrl x = snd (calculate (- x) 1 (enable (init 1 0 0 0 angle_source kDefaultPeriod 0)))"

definition ff_ctrl :: PIDController where
  "ff_ctrl = setSetpoint 10 (init 1 0 0 0.5 angle_source kDefaultPeriod 0)"

definition ff_rate_ctrl :: PIDController where
  "ff_rate_ctrl = setSetpoint 10 (init 1 0 0 0.5 rate_source kDefaultPeriod 0)"

definition integ_ctrl :: PIDController where
  "integ_ctrl = snd (calculate (-0.3) 1 (enable (init 1 1 0 0 angle_source kDefaultPeriod 0)))"

text \<open>
  Capacity 3, then three ticks at setpoint 0 with the inputs -1, -2 and -3: the errors 1,
  2 and 3 are in the history, 1 the oldest.
\<close>

definition hist_ctrl :: PIDController where
  "hist_ctrl =
     snd (calculate (-3) 3 (snd (calculate (-2) 2 (snd (calculate (-1) 1
       (enable (setToleranceBuffer 3 (init 1 0 0 0 angle_source kDefaultPeriod 0))))))))"

text \<open>Controllers with a negative gain: \<open>P = -2\<close> on a rate source, \<open>I = -2\<close> on a
  displacement source.\<close>

definition rate_ctrl_negP :: PIDController where
  "rate_ctrl_negP = enable (setSetpoint 1 (init (-2) 0 0 0 rate_source kDefaultPeriod 0))"

definition angle_ctrl_negI :: PIDController where
  "angle_ctrl_negI = enable (setSetpoint 1 (init 1 (-2) 0 0 angle_source kDefaultPeriod 0))"

definition integ_start :: PIDController where
  "integ_start = enable (init 1 1 0 0 angle_source kDefaultPeriod 0)"

section \<open>Properties\<close>

lemma clamp_bounds: "low \<le> high \<Longrightarrow> low \<le> clamp v low high \<and> clamp v low high \<le> high"
  by (simp add: clamp_def)

lemmas ctrl_defs = rate_ctrl_P0_def rate_ctrl_def angle_ctrl_def wrap_ctrl_def
  rate_source_def angle_source_def enable_def setSetpoint_def init_def setContinuous_def
  setInputRange_def deque_new_def deque_clear_def Timer_reset_def kDefaultPeriod_def

subsection \<open>The compute step, branch by branch\<close>

lemma calculateFeedForward_rate:
  "pidInput s = Some src \<Longrightarrow> getPIDSourceType src = kRate \<Longrightarrow>
   calculateFeedForward now s = (Inr (F s * setpoint s), s)"
  by (simp add: calculateFeedForward_def getSetpoint_def)

lemma calculateFeedForward_displacement:
  "pidInput s = Some src \<Longrightarrow> getPIDSourceType src \<noteq> kRate \<Longrightarrow>
   calculateFeedForward now s =
     (Inr (F s * getDeltaSetpoint now s), s\<lparr>prevSetpoint := setpoint s, setpointTimer := now\<rparr>)"
  by (simp add: calculateFeedForward_def Timer_reset_def Let_def)

lemma calculate_rate:
  assumes "enabled s" and "pidInput s = Some src" and "pidOutput s = Some written"
    and "getPIDSourceType src = kRate"
  shows "calculate input now s =
    (let e = getContinuousError s (setpoint s - input);
         t = (if P s \<noteq> 0
              then clamp (totalError s + e) (minimumOutput s / P s) (maximumOutput s / P s)
              else totalError s);
         r = clamp (P s * t + D s * e + F s * setpoint s) (minimumOutput s) (maximumOutput s)
     in (Inr (), s\<lparr>error := e, totalError := t, prevError := e, result := r,
                    buf := deque_append e (buf s), pidOutput := Some (written @ [r])\<rparr>))"
  using assms
  by (simp add: calculate_def Let_def calculateFeedForward_rate)

lemma calculate_displacement:
  assumes "enabled s" and "pidInput s = Some src" and "pidOutput s = Some written"
    and "getPIDSourceType src \<noteq> kRate"
  shows "calculate input now s =
    (let e = getContinuousError s (setpoint s - input);
         t = (if I s \<noteq> 0
              then clamp (totalError s + e) (minimumOutput s / I s) (maximumOutput s / I s)
              else totalError s);
         r = clamp (P s * e + I s * t + D s * (e - prevError s) + F s * getDeltaSetpoint now s)
               (minimumOutput s) (maximumOutput s)
     in (Inr (), s\<lparr>error := e, totalError := t, prevSetpoint := setpoint s,
                    setpointTimer := now, prevError := e, result := r,
                    buf := deque_append e (buf s), pidOutput := Some (written @ [r])\<rparr>))"
  using assms
  by (simp add: calculate_def Let_def calculateFeedForward_displacement getDeltaSetpoint_def)

lemma source_kind_cases:
  "getPIDSourceType src \<noteq> kRate \<longleftrightarrow> getPIDSourceType src = kDisplacement"
  by (cases "getPIDSourceType src") simp_all

subsection \<open>C1: the terms of one tick\<close>

lemma clamp_ordered:
  "low \<le> high \<Longrightarrow>
   clamp v low high = (if v < low then low else if high < v then high else v)"
  by (simp add: clamp_def max_def min_def)

lemma rate_ctrl_fields:
  "enabled rate_ctrl" "pidInput rate_ctrl = Some rate_source" "pidOutput rate_ctrl = Some []"
  "P rate_ctrl = 2" "D rate_ctrl = 0" "F rate_ctrl = 0"
  "totalError rate_ctrl = 0" "minimumOutput rate_ctrl = -1" "maximumOutput rate_ctrl = 1"
  "getContinuousError rate_ctrl (setpoint rate_ctrl - 0) = 1"
  by (simp_all add: ctrl_defs getContinuousError_def)

lemma rate_ctrl_P0_fields:
  "enabled rate_ctrl_P0" "pidInput rate_ctrl_P0 = Some rate_source"
  "pidOutput rate_ctrl_P0 = Some []" "P rate_ctrl_P0 = 0" "totalError rate_ctrl_P0 = 0"
  "getContinuousError rate_ctrl_P0 (setpoint rate_ctrl_P0 - 0) = 1"
  by (simp_all add: ctrl_defs getContinuousError_def)

lemma angle_ctrl_fields:
  "enabled angle_ctrl" "pidInput angle_ctrl = Some angle_source" "pidOutput angle_ctrl = Some []"
  "I angle_ctrl = 0" "P angle_ctrl = 1" "D angle_ctrl = 0" "F angle_ctrl = 0"
  "totalError angle_ctrl = 0" "prevError angle_ctrl = 0"
  "minimumOutput angle_ctrl = -1" "maximumOutput angle_ctrl = 1"
  "getContinuousError angle_ctrl (setpoint angle_ctrl - 0) = 10"
  by (simp_all add: ctrl_defs getContinuousError_def)

lemma integ_start_fields:
  "enabled integ_start" "pidInput integ_start = Some angle_source"
  "pidOutput integ_start = Some []"
  "I integ_start = 1" "P integ_start = 1" "D integ_start = 0" "F integ_start = 0"
  "totalError integ_start = 0" "prevError integ_start = 0"
  "minimumOutput integ_start = -1" "maximumOutput integ_start = 1"
  "getContinuousError integ_start (setpoint integ_start - (-0.3)) = 0.3"
  by (simp_all add: integ_start_def ctrl_defs getContinuousError_def)

lemma source_kinds:
  "getPIDSourceType rate_source = kRate" "getPIDSourceType angle_source = kDisplacement"
  by (simp_all add: getPIDSourceType_def rate_source_def angle_source_def)

text \<open>
  C1, as the code has it. On a tick of an enabled controller with its source and its
  output attached, the error is the wrap-corrected \<open>setpoint - input\<close>. For a rate
  source: when \<open>P > 0\<close>, with \<open>minimumOutput \<le> maximumOutput\<close>, the accumulator becomes
  the old accumulator plus the error clamped to the interval from \<open>minimumOutput / P\<close> to
  \<open>maximumOutput / P\<close>: it lies in the interval, and it is the sum itself when the sum
  lies there, the lower bound when the sum is below and the upper bound when it is
  above; when \<open>P = 0\<close> the accumulator keeps its value (the addition is skipped together
  with the clamp); the result before the output clamp is
  \<open>P * accumulator + D * error + feed-forward\<close>. For a displacement source the same
  holds with \<open>I\<close> in the place of \<open>P\<close>, and the result before the output clamp is
  \<open>P * error + I * accumulator + D * (error - prevError) + feed-forward\<close>. The stored
  result is that value clamped with the output bounds.
\<close>

theorem calculate_terms:
  assumes "enabled s" and "pidInput s = Some src" and "pidOutput s = Some written"
    and "e = getContinuousError s (setpoint s - input)"
    and "s' = snd (calculate input now s)"
  shows "fst (calculate input now s) = Inr () \<and> error s' = e \<and>
    (getPIDSourceType src = kRate \<longrightarrow>
       (0 < P s \<and> minimumOutput s \<le> maximumOutput s \<longrightarrow>
          minimumOutput s / P s \<le> totalError s' \<and> totalError s' \<le> maximumOutput s / P s \<and>
          totalError s' =
            (if totalError s + e < minimumOutput s / P s then minimumOutput s / P s
             else if maximumOutput s / P s < totalError s + e then maximumOutput s / P s
             else totalError s + e)) \<and>
       (P s = 0 \<longrightarrow> totalError s' = totalError s) \<and>
       fst (calculateFeedForward now s) = Inr (F s * setpoint s) \<and>
       result s' = clamp (P s * totalError s' + D s * e + F s * setpoint s)
                     (minimumOutput s) (maximumOutput s)) \<and>
    (getPIDSourceType src = kDisplacement \<longrightarrow>
       (0 < I s \<and> minimumOutput s \<le> maximumOutput s \<longrightarrow>
          minimumOutput s / I s \<le> totalError s' \<and> totalError s' \<le> maximumOutput s / I s \<and>
          totalError s' =
            (if totalError s + e < minimumOutput s / I s then minimumOutput s / I s
             else if maximumOutput s / I s < totalError s + e then maximumOutput s / I s
             else totalError s + e)) \<and>
       (I s = 0 \<longrightarrow> totalError s' = totalError s) \<and>
       fst (calculateFeedForward now s) = Inr (F s * getDeltaSetpoint now s) \<and>
       result s' = clamp (P s * e + I s * totalError s' + D s * (e - prevError s)
                            + F s * getDeltaSetpoint now s)
                     (minimumOutput s) (maximumOutput s))"
proof (cases "getPIDSourceType src = kRate")
  case True
  have acc: "totalError s' =
      (if P s \<noteq> 0
       then clamp (totalError s + e) (minimumOutput s / P s) (maximumOutput s / P s)
       else totalError s)"
    and res: "result s' = clamp (P s * totalError s' + D s * e + F s * setpoint s)
                     (minimumOutput s) (maximumOutput s)"
    and rest: "fst (calculate input now s) = Inr ()" "error s' = e"
    using assms(4,5) by (simp_all add: calculate_rate [OF assms(1-3) True] Let_def)
  have pos: "0 < P s \<and> minimumOutput s \<le> maximumOutput s \<longrightarrow>
          minimumOutput s / P s \<le> totalError s' \<and> totalError s' \<le> maximumOutput s / P s \<and>
          totalError s' =
            (if totalError s + e < minimumOutput s / P s then minimumOutput s / P s
             else if maximumOutput s / P s < totalError s + e then maximumOutput s / P s
             else totalError s + e)"
  proof
    assume h: "0 < P s \<and> minimumOutput s \<le> maximumOutput s"
    then have ord: "minimumOutput s / P s \<le> maximumOutput s / P s"
      by (simp add: divide_right_mono)
    from h have "totalError s' =
        clamp (totalError s + e) (minimumOutput s / P s) (maximumOutput s / P s)"
      using acc by simp
    with clamp_bounds [OF ord] clamp_ordered [OF ord]
    show "minimumOutput s / P s \<le> totalError s' \<and> totalError s' \<le> maximumOutput s / P s \<and>
          totalError s' =
            (if totalError s + e < minimumOutput s / P s then minimumOutput s / P s
             else if maximumOutput s / P s < totalError s + e then maximumOutput s / P s
             else totalError s + e)"
      by simp
  qed
  have zero: "P s = 0 \<longrightarrow> totalError s' = totalError s"
    using acc by simp
  have ff: "fst (calculateFeedForward now s) = Inr (F s * setpoint s)"
    by (simp add: calculateFeedForward_rate [OF assms(2) True])
  have other: "getPIDSourceType src \<noteq> kDisplacement"
    using True by simp
  from rest pos zero ff res other show ?thesis by blast
next
  case False
  have acc: "totalError s' =
      (if I s \<noteq> 0
       then clamp (totalError s + e) (minimumOutput s / I s) (maximumOutput s / I s)
       else totalError s)"
    and res: "result s' = clamp (P s * e + I s * totalError s' + D s * (e - prevError s)
                            + F s * getDeltaSetpoint now s)
                     (minimumOutput s) (maximumOutput s)"
    and rest: "fst (calculate input now s) = Inr ()" "error s' = e"
    using assms(4,5) by (simp_all add: calculate_displacement [OF assms(1-3) False] Let_def)
  have pos: "0 < I s \<and> minimumOutput s \<le> maximumOutput s \<longrightarrow>
          minimumOutput s / I s \<le> totalError s' \<and> totalError s' \<le> maximumOutput s / I s \<and>
          totalError s' =
            (if totalError s + e < minimumOutput s / I s then minimumOutput s / I s
             else if maximumOutput s / I s < totalError s + e then maximumOutput s / I s
             else totalError s + e)"
  proof
    assume h: "0 < I s \<and> minimumOutput s \<le> maximumOutput s"
    then have ord: "minimumOutput s / I s \<le> maximumOutput s / I s"
      by (simp add: divide_right_mono)
    from h have "totalError s' =
        clamp (totalError s + e) (minimumOutput s / I s) (maximumOutput s / I s)"
      using acc by simp
    with clamp_bounds [OF ord] clamp_ordered [OF ord]
    show "minimumOutput s / I s \<le> totalError s' \<and> totalError s' \<le> maximumOutput s / I s \<and>
          totalError s' =
            (if totalError s + e < minimumOutput s / I s then minimumOutput s / I s
             else if maximumOutput s / I s < totalError s + e then maximumOutput s / I s
             else totalError s + e)"
      by simp
  qed
  have zero: "I s = 0 \<longrightarrow> totalError s' = totalError s"
    using acc by simp
  have ff: "fst (calculateFeedForward now s) = Inr (F s * getDeltaSetpoint now s)"
    by (simp add: calculateFeedForward_displacement [OF assms(2) False])
  from rest pos zero ff res False show ?thesis by blast
qed

text \<open>
  The theorem at four controllers: a rate controller with \<open>P = 2\<close>, setpoint 1 and input
  0 (the sum 1 is clamped to \<open>1/2\<close>, result 1); a rate controller with \<open>P = 0\<close>
  (accumulator untouched); a displacement controller with \<open>P = 1\<close>, \<open>I = 1\<close> and error
  0.3 (accumulator 0.3, result 0.6); and a displacement controller with \<open>I = 0\<close>,
  setpoint 10 and input 0 (accumulator untouched, result clamped to 1).
\<close>

theorem calculate_terms_witness:
  "enabled rate_ctrl \<and> pidInput rate_ctrl = Some rate_source \<and> pidOutput rate_ctrl = Some [] \<and>
   getPIDSourceType rate_source = kRate \<and> 0 < P rate_ctrl \<and>
   minimumOutput rate_ctrl \<le> maximumOutput rate_ctrl \<and>
   getContinuousError rate_ctrl (setpoint rate_ctrl - 0) = 1 \<and>
   totalError (snd (calculate 0 0 rate_ctrl)) = 1/2 \<and>
   result (snd (calculate 0 0 rate_ctrl)) = 1 \<and>
   enabled rate_ctrl_P0 \<and> P rate_ctrl_P0 = 0 \<and>
   totalError (snd (calculate 0 0 rate_ctrl_P0)) = 0 \<and>
   enabled integ_start \<and> pidInput integ_start = Some angle_source \<and>
   getPIDSourceType angle_source = kDisplacement \<and> 0 < I integ_start \<and>
   minimumOutput integ_start \<le> maximumOutput integ_start \<and>
   totalError (snd (calculate (-0.3) 1 integ_start)) = 0.3 \<and>
   result (snd (calculate (-0.3) 1 integ_start)) = 0.6 \<and>
   enabled angle_ctrl \<and> I angle_ctrl = 0 \<and>
   totalError (snd (calculate 0 0 angle_ctrl)) = 0 \<and>
   result (snd (calculate 0 0 angle_ctrl)) = 1"
proof -
  note r = rate_ctrl_fields and z = rate_ctrl_P0_fields and a = angle_ctrl_fields
    and i = integ_start_fields and k = source_kinds
  from calculate_terms [OF r(1-3) refl refl, of 0 0] r k
  have 1: "totalError (snd (calculate 0 0 rate_ctrl)) = 1/2 \<and>
      result (snd (calculate 0 0 rate_ctrl)) = 1"
    by (simp add: clamp_def)
  from calculate_terms [OF z(1-3) refl refl, of 0 0] z k
  have 2: "totalError (snd (calculate 0 0 rate_ctrl_P0)) = 0"
    by simp
  from calculate_terms [OF i(1-3) refl refl, of "-0.3" 1] i k
  have 3: "totalError (snd (calculate (-0.3) 1 integ_start)) = 0.3 \<and>
      result (snd (calculate (-0.3) 1 integ_start)) = 0.6"
    by (simp add: clamp_def getDeltaSetpoint_def)
  from calculate_terms [OF a(1-3) refl refl, of 0 0] a k
  have 4: "totalError (snd (calculate 0 0 angle_ctrl)) = 0 \<and>
      result (snd (calculate 0 0 angle_ctrl)) = 1"
    by (simp add: clamp_def)
  from 1 2 3 4 r z a i k show ?thesis by simp
qed

text \<open>
  C1 as the specification words it fails in two ways. It has the accumulator of a rate
  controller incremented by the error also when \<open>P = 0\<close>: on a rate controller with
  \<open>P = 0\<close>, setpoint 1 and input 0 the error is 1 and the accumulator stays 0. And it has
  the accumulator clamped to the interval from \<open>outputMin / gain\<close> to \<open>outputMax / gain\<close>
  for every gain other than 0: with the gain -2 and the output range from -1 to 1 these
  bounds are \<open>1/2\<close> and \<open>-1/2\<close>, and at setpoint 1 the accumulator is \<open>1/2\<close> after a
  tick with input 0.9 as after one with input 0, although the sum 0.1 lies between the
  two bounds; \<open>1/2\<close> is not at most \<open>-1/2\<close>. That holds for \<open>P = -2\<close> on a rate source
  and for \<open>I = -2\<close> on a displacement source.
\<close>

theorem calculate_accumulator_counterexample:
  "enabled rate_ctrl_P0 \<and> pidInput rate_ctrl_P0 = Some rate_source \<and>
   pidOutput rate_ctrl_P0 = Some [] \<and> getPIDSourceType rate_source = kRate \<and>
   P rate_ctrl_P0 = 0 \<and>
   totalError (snd (calculate 0 0 rate_ctrl_P0)) \<noteq>
     totalError rate_ctrl_P0 + getContinuousError rate_ctrl_P0 (setpoint rate_ctrl_P0 - 0) \<and>
   enabled rate_ctrl_negP \<and> pidInput rate_ctrl_negP = Some rate_source \<and>
   pidOutput rate_ctrl_negP = Some [] \<and> P rate_ctrl_negP = -2 \<and>
   minimumOutput rate_ctrl_negP / P rate_ctrl_negP = 1/2 \<and>
   maximumOutput rate_ctrl_negP / P rate_ctrl_negP = -1/2 \<and>
   totalError rate_ctrl_negP + getContinuousError rate_ctrl_negP (setpoint rate_ctrl_negP - 0.9)
     = 0.1 \<and>
   totalError (snd (calculate 0.9 0 rate_ctrl_negP)) = 1/2 \<and>
   totalError (snd (calculate 0 0 rate_ctrl_negP)) = 1/2 \<and>
   \<not> (minimumOutput rate_ctrl_negP / P rate_ctrl_negP
        \<le> totalError (snd (calculate 0.9 0 rate_ctrl_negP)) \<and>
      totalError (snd (calculate 0.9 0 rate_ctrl_negP))
        \<le> maximumOutput rate_ctrl_negP / P rate_ctrl_negP) \<and>
   enabled angle_ctrl_negI \<and> pidInput angle_ctrl_negI = Some angle_source \<and>
   pidOutput angle_ctrl_negI = Some [] \<and> getPIDSourceType angle_source = kDisplacement \<and>
   I angle_ctrl_negI = -2 \<and>
   minimumOutput angle_ctrl_negI / I angle_ctrl_negI = 1/2 \<and>
   maximumOutput angle_ctrl_negI / I angle_ctrl_negI = -1/2 \<and>
   totalError angle_ctrl_negI
     + getContinuousError angle_ctrl_negI (setpoint angle_ctrl_negI - 0.9) = 0.1 \<and>
   totalError (snd (calculate 0.9 0 angle_ctrl_negI)) = 1/2 \<and>
   totalError (snd (calculate 0 0 angle_ctrl_negI)) = 1/2 \<and>
   \<not> (minimumOutput angle_ctrl_negI / I angle_ctrl_negI
        \<le> totalError (snd (calculate 0.9 0 angle_ctrl_negI)) \<and>
      totalError (snd (calculate 0.9 0 angle_ctrl_negI))
        \<le> maximumOutput angle_ctrl_negI / I angle_ctrl_negI)"
  by (simp add: ctrl_defs rate_ctrl_negP_def angle_ctrl_negI_def calculate_def
      getPIDSourceType_def calculateFeedForward_def getContinuousError_def deque_append_def
      clamp_def getSetpoint_def getDeltaSetpoint_def Timer_get_def)

subsection \<open>C2: the output stays within the output range\<close>

text \<open>
  C2. When \<open>minimumOutput \<le> maximumOutput\<close>, a tick of an enabled controller with its
  source and its output attached hands exactly one value to the output, that value is the
  stored result, and it lies between \<open>minimumOutput\<close> and \<open>maximumOutput\<close>, which the
  tick leaves as they were.
\<close>

theorem calculate_output_within_bounds:
  assumes "minimumOutput s \<le> maximumOutput s" and "enabled s"
    and "pidInput s = Some src" and "pidOutput s = Some written"
    and "s' = snd (calculate input now s)"
  shows "fst (calculate input now s) = Inr () \<and>
    pidOutput s' = Some (written @ [result s']) \<and>
    minimumOutput s \<le> result s' \<and> result s' \<le> maximumOutput s \<and>
    minimumOutput s' = minimumOutput s \<and> maximumOutput s' = maximumOutput s"
proof (cases "getPIDSourceType src = kRate")
  case True
  with assms show ?thesis
    by (simp add: calculate_rate [OF assms(2-4) True] Let_def clamp_bounds)
next
  case False
  with assms show ?thesis
    by (simp add: calculate_displacement [OF assms(2-4) False] Let_def clamp_bounds)
qed

theorem calculate_output_within_bounds_witness:
  "minimumOutput angle_ctrl \<le> maximumOutput angle_ctrl \<and> enabled angle_ctrl \<and>
   pidInput angle_ctrl = Some angle_source \<and> pidOutput angle_ctrl = Some [] \<and>
   minimumOutput angle_ctrl = -1 \<and> maximumOutput angle_ctrl = 1 \<and>
   pidOutput (snd (calculate 0 0 angle_ctrl)) = Some [result (snd (calculate 0 0 angle_ctrl))] \<and>
   -1 \<le> result (snd (calculate 0 0 angle_ctrl)) \<and> result (snd (calculate 0 0 angle_ctrl)) \<le> 1"
proof -
  have a: "minimumOutput angle_ctrl \<le> maximumOutput angle_ctrl" "enabled angle_ctrl"
    "pidInput angle_ctrl = Some angle_source" "pidOutput angle_ctrl = Some []"
    "minimumOutput angle_ctrl = -1" "maximumOutput angle_ctrl = 1"
    by (simp_all add: ctrl_defs)
  from calculate_output_within_bounds [OF a(1-4) refl, of 0 0] a show ?thesis by simp
qed

subsection \<open>C3: the continuous-error wrap\<close>

text \<open>
  C3. \<open>getContinuousError\<close> depends on the controller only through the continuous flag
  and the two input bounds. Without the flag it returns the error. With the flag and
  \<open>\<bar>error\<bar> > (maximumInput - minimumInput) / 2\<close> it returns the error minus the
  range for a positive error and the error plus the range otherwise. With
  \<open>minimumInput \<le> maximumInput\<close>, which every successful \<open>setInputRange\<close> keeps, the
  value returned is never longer than the error itself nor than the error shifted by the
  range either way, and it is strictly shorter than the error whenever the wrap applies
  to a range that is not a point. With the range from 0 to 360: 200 goes to -160, -200
  goes to 160, and 100 stays.
\<close>

theorem getContinuousError_spec:
  "(\<not> continuous_flag s \<longrightarrow> getContinuousError s e = e) \<and>
   (continuous_flag s \<and> \<bar>e\<bar> > (maximumInput s - minimumInput s) / 2 \<longrightarrow>
      getContinuousError s e =
        (if e > 0 then e - (maximumInput s - minimumInput s)
         else e + (maximumInput s - minimumInput s))) \<and>
   (continuous_flag s \<and> \<bar>e\<bar> \<le> (maximumInput s - minimumInput s) / 2 \<longrightarrow>
      getContinuousError s e = e) \<and>
   (continuous_flag s = continuous_flag s' \<and> minimumInput s = minimumInput s' \<and>
    maximumInput s = maximumInput s' \<longrightarrow> getContinuousError s e = getContinuousError s' e) \<and>
   (minimumInput s \<le> maximumInput s \<and> continuous_flag s \<longrightarrow>
      \<bar>getContinuousError s e\<bar> \<le> \<bar>e\<bar> \<and>
      \<bar>getContinuousError s e\<bar> \<le> \<bar>e - (maximumInput s - minimumInput s)\<bar> \<and>
      \<bar>getContinuousError s e\<bar> \<le> \<bar>e + (maximumInput s - minimumInput s)\<bar>) \<and>
   (minimumInput s < maximumInput s \<and> continuous_flag s \<and>
    \<bar>e\<bar> > (maximumInput s - minimumInput s) / 2 \<longrightarrow>
      \<bar>getContinuousError s e\<bar> < \<bar>e\<bar>) \<and>
   (continuous_flag s \<and> minimumInput s = 0 \<and> maximumInput s = 360 \<longrightarrow>
      getContinuousError s 200 = -160 \<and> getContinuousError s (-200) = 160 \<and>
      getContinuousError s 100 = 100)"
  unfolding getContinuousError_def by (auto simp: abs_if split: if_splits)

text \<open>
  The theorem at a controller made continuous after \<open>setInputRange(0, 360)\<close>, with the
  error 200.
\<close>

theorem getContinuousError_spec_witness:
  "continuous_flag wrap_ctrl \<and> minimumInput wrap_ctrl = 0 \<and> maximumInput wrap_ctrl = 360 \<and>
   (maximumInput wrap_ctrl - minimumInput wrap_ctrl) / 2 < \<bar>200\<bar> \<and>
   getContinuousError wrap_ctrl 200 = -160 \<and>
   \<bar>getContinuousError wrap_ctrl 200\<bar> < \<bar>200\<bar> \<and>
   getContinuousError wrap_ctrl (-200) = 160 \<and>
   getContinuousError wrap_ctrl 100 = 100 \<and>
   getContinuousError (setContinuous False wrap_ctrl) 200 = 200"
proof -
  have h: "continuous_flag wrap_ctrl" "minimumInput wrap_ctrl = 0"
    "maximumInput wrap_ctrl = 360" "\<not> continuous_flag (setContinuous False wrap_ctrl)"
    by (simp_all add: ctrl_defs)
  from getContinuousError_spec [of wrap_ctrl 200 wrap_ctrl]
    getContinuousError_spec [of "setContinuous False wrap_ctrl" 200 wrap_ctrl] h
  show ?thesis by simp
qed

subsection \<open>Facts about the example controllers\<close>

lemma sample_ctrl_buf: "buf (sample_ctrl x) = \<lparr>elems = [x], maxlen = 1\<rparr>"
  by (simp add: sample_ctrl_def ctrl_defs calculate_def getPIDSourceType_def
      calculateFeedForward_def getContinuousError_def deque_append_def)

lemma integ_ctrl_fields:
  "enabled integ_ctrl" "pidInput integ_ctrl = Some angle_source"
  "pidOutput integ_ctrl = Some [0.6]" "buf integ_ctrl = \<lparr>elems = [0.3], maxlen = 1\<rparr>"
  "totalError integ_ctrl = 0.3" "prevError integ_ctrl = 0.3" "result integ_ctrl = 0.6"
  "setpoint integ_ctrl = 0" "minimumInput integ_ctrl = 0" "maximumInput integ_ctrl = 0"
  by (simp_all add: integ_ctrl_def ctrl_defs calculate_def getPIDSourceType_def
      calculateFeedForward_def getContinuousError_def deque_append_def clamp_def
      getDeltaSetpoint_def Timer_get_def)

lemma wrap_ctrl_fields:
  "\<not> enabled wrap_ctrl" "pidOutput wrap_ctrl = Some []" "pidInput wrap_ctrl = Some angle_source"
  "minimumInput wrap_ctrl = 0" "maximumInput wrap_ctrl = 360" "continuous_flag wrap_ctrl"
  "buf wrap_ctrl = \<lparr>elems = [], maxlen = 1\<rparr>"
  by (simp_all add: ctrl_defs)

lemma hist_ctrl_buf: "buf hist_ctrl = \<lparr>elems = [1, 2, 3], maxlen = 3\<rparr>"
  by (simp add: hist_ctrl_def ctrl_defs setToleranceBuffer_def islice_def calculate_def
      getPIDSourceType_def calculateFeedForward_def getContinuousError_def deque_append_def
      clamp_def getDeltaSetpoint_def Timer_get_def)

subsection \<open>C4: resizing the error history\<close>

lemma setToleranceBuffer_buf:
  "buf (setToleranceBuffer n s) = \<lparr>elems = take n (elems (buf s)), maxlen = n\<rparr>"
  by (simp add: setToleranceBuffer_def deque_new_def islice_def)

text \<open>
  C4 says that \<open>setToleranceBuffer(n)\<close> keeps the newest \<open>min(n, length)\<close> samples.
  \<open>islice(self.buf, bufLength)\<close> reads the deque from its left end, where the oldest
  sample is: with the samples 1, 2, 3 in the history (3 the newest),
  \<open>setToleranceBuffer(2)\<close> leaves 1 and 2, not 2 and 3. The new capacity is 2 as claimed.
\<close>

theorem setToleranceBuffer_keeps_oldest:
  "elems (buf hist_ctrl) = [1, 2, 3] \<and> maxlen (buf hist_ctrl) = 3 \<and>
   elems (buf (setToleranceBuffer 2 hist_ctrl)) = [1, 2] \<and>
   maxlen (buf (setToleranceBuffer 2 hist_ctrl)) = 2 \<and>
   elems (buf (setToleranceBuffer 2 hist_ctrl)) \<noteq> [2, 3]"
  by (simp add: setToleranceBuffer_buf hist_ctrl_buf)

subsection \<open>C5: being on target\<close>

lemma onTarget_absolute:
  "onTarget_attr s = Some (AbsoluteTolerance t) \<Longrightarrow>
   onTarget s = Inr (elems (buf s) \<noteq> [] \<and> \<bar>getAvgError s\<bar> < t)"
  by (simp add: onTarget_def AbsoluteTolerance_onTarget_def isAvgErrorValid_def)

lemma onTarget_percentage:
  "onTarget_attr s = Some (PercentageTolerance p) \<Longrightarrow>
   onTarget s = Inr (elems (buf s) \<noteq> [] \<and>
     \<bar>getAvgError s\<bar> < p / 100 * (maximumInput s - minimumInput s))"
  by (simp add: onTarget_def PercentageTolerance_onTarget_def isAvgErrorValid_def)

lemma getAvgError_empty: "elems (buf s) = [] \<Longrightarrow> getAvgError s = 0"
  by (simp add: getAvgError_def)

text \<open>
  C5. Without an installed tolerance, as on a new controller, \<open>onTarget()\<close> raises
  \<open>ValueError\<close>. After \<open>setAbsoluteTolerance(t)\<close>, and as long as that tolerance is the
  installed one, it returns whether the history holds a sample and
  \<open>\<bar>average error\<bar> < t\<close>; after \<open>setPercentTolerance(p)\<close>, whether the history holds a
  sample and \<open>\<bar>average error\<bar> < p / 100 * (maximumInput - minimumInput)\<close>. The average
  of a history that is not empty is its sum over its length. With \<open>t = 0.5\<close>, an average
  error of 0.3 gives true and one of 0.7 gives false.
\<close>

theorem onTarget_spec:
  "(onTarget_attr s = None \<longrightarrow> onTarget s = Inl ValueError) \<and>
   onTarget (init Kp Ki Kd Kf src per now) = Inl ValueError \<and>
   onTarget (setAbsoluteTolerance t s) =
     Inr (elems (buf s) \<noteq> [] \<and> \<bar>getAvgError s\<bar> < t) \<and>
   onTarget (setPercentTolerance p s) =
     Inr (elems (buf s) \<noteq> [] \<and>
       \<bar>getAvgError s\<bar> < p / 100 * (maximumInput s - minimumInput s)) \<and>
   (onTarget_attr s = Some (AbsoluteTolerance t) \<longrightarrow>
      onTarget s = Inr (elems (buf s) \<noteq> [] \<and> \<bar>getAvgError s\<bar> < t)) \<and>
   (onTarget_attr s = Some (PercentageTolerance p) \<longrightarrow>
      onTarget s = Inr (elems (buf s) \<noteq> [] \<and>
        \<bar>getAvgError s\<bar> < p / 100 * (maximumInput s - minimumInput s))) \<and>
   (elems (buf s) \<noteq> [] \<longrightarrow>
      getAvgError s = sum_list (elems (buf s)) / real (length (elems (buf s)))) \<and>
   (getAvgError s = 0.3 \<longrightarrow> onTarget (setAbsoluteTolerance 0.5 s) = Inr True) \<and>
   (getAvgError s = 0.7 \<longrightarrow> onTarget (setAbsoluteTolerance 0.5 s) = Inr False)"
proof -
  have none: "onTarget_attr s = None \<longrightarrow> onTarget s = Inl ValueError"
    by (simp add: onTarget_def)
  have fresh: "onTarget (init Kp Ki Kd Kf src per now) = Inl ValueError"
    by (simp add: onTarget_def init_def)
  have abs: "onTarget (setAbsoluteTolerance t' s) =
      Inr (elems (buf s) \<noteq> [] \<and> \<bar>getAvgError s\<bar> < t')" for t'
    using onTarget_absolute [of "setAbsoluteTolerance t' s" t']
    by (simp add: setAbsoluteTolerance_def getAvgError_def)
  have pct: "onTarget (setPercentTolerance p s) =
      Inr (elems (buf s) \<noteq> [] \<and>
        \<bar>getAvgError s\<bar> < p / 100 * (maximumInput s - minimumInput s))"
    using onTarget_percentage [of "setPercentTolerance p s" p]
    by (simp add: setPercentTolerance_def getAvgError_def)
  have avg: "elems (buf s) \<noteq> [] \<longrightarrow>
      getAvgError s = sum_list (elems (buf s)) / real (length (elems (buf s)))"
    by (simp add: getAvgError_def)
  have yes: "getAvgError s = 0.3 \<longrightarrow> onTarget (setAbsoluteTolerance 0.5 s) = Inr True"
  proof
    assume h: "getAvgError s = 0.3"
    then have "elems (buf s) \<noteq> []" using getAvgError_empty [of s] by auto
    with h show "onTarget (setAbsoluteTolerance 0.5 s) = Inr True" by (simp add: abs)
  qed
  have no: "getAvgError s = 0.7 \<longrightarrow> onTarget (setAbsoluteTolerance 0.5 s) = Inr False"
    by (simp add: abs)
  from none fresh abs [of t] pct onTarget_absolute [of s t] onTarget_percentage [of s p] avg yes no
  show ?thesis by blast
qed

text \<open>
  The theorem at controllers that have run one tick with the error 0.3, and with the
  error 0.7.
\<close>

theorem onTarget_spec_witness:
  "getAvgError (sample_ctrl 0.3) = 0.3 \<and>
   onTarget_attr (sample_ctrl 0.3) = None \<and>
   onTarget (sample_ctrl 0.3) = Inl ValueError \<and>
   onTarget (setAbsoluteTolerance 0.5 (sample_ctrl 0.3)) = Inr True \<and>
   getAvgError (sample_ctrl 0.7) = 0.7 \<and>
   onTarget (setAbsoluteTolerance 0.5 (sample_ctrl 0.7)) = Inr False"
proof -
  have h: "getAvgError (sample_ctrl 0.3) = 0.3" "getAvgError (sample_ctrl 0.7) = 0.7"
    by (simp_all add: getAvgError_def sample_ctrl_buf)
  have n: "onTarget_attr (sample_ctrl 0.3) = None"
    by (simp add: sample_ctrl_def ctrl_defs calculate_def getPIDSourceType_def
      calculateFeedForward_def)
  from onTarget_spec [where s = "sample_ctrl 0.3" and t = 0 and p = 0 and Kp = 0 and Ki = 0
      and Kd = 0 and Kf = 0 and src = angle_source and per = 0 and now = 0]
    onTarget_spec [where s = "sample_ctrl 0.7" and t = 0 and p = 0 and Kp = 0 and Ki = 0
      and Kd = 0 and Kf = 0 and src = angle_source and per = 0 and now = 0] h n
  show ?thesis by blast
qed

subsection \<open>C6: the range setters\<close>

text \<open>
  C6. With \<open>min > max\<close>, \<open>setInputRange\<close> and \<open>setOutputRange\<close> raise \<open>ValueError\<close> and
  the controller is what it was before the call, bounds included. With \<open>min \<le> max\<close>
  both return normally, \<open>setInputRange\<close> leaves the new input bounds in place, and
  \<open>setOutputRange\<close> changes the two output bounds and nothing else.
\<close>

theorem range_setters_spec:
  "(mn > mx \<longrightarrow>
      setInputRange mn mx s = (Inl ValueError, s) \<and>
      setOutputRange mn mx s = (Inl ValueError, s)) \<and>
   (mn \<le> mx \<longrightarrow>
      fst (setInputRange mn mx s) = Inr () \<and>
      minimumInput (snd (setInputRange mn mx s)) = mn \<and>
      maximumInput (snd (setInputRange mn mx s)) = mx \<and>
      setOutputRange mn mx s = (Inr (), s\<lparr>minimumOutput := mn, maximumOutput := mx\<rparr>))"
  by (simp add: setInputRange_def setOutputRange_def setSetpoint_def Let_def)

theorem range_setters_spec_witness:
  "(360::real) > 0 \<and>
   setInputRange 360 0 wrap_ctrl = (Inl ValueError, wrap_ctrl) \<and>
   minimumInput wrap_ctrl = 0 \<and> maximumInput wrap_ctrl = 360 \<and>
   setOutputRange 360 0 wrap_ctrl = (Inl ValueError, wrap_ctrl) \<and>
   (-90::real) \<le> 90 \<and>
   fst (setInputRange (-90) 90 wrap_ctrl) = Inr () \<and>
   minimumInput (snd (setInputRange (-90) 90 wrap_ctrl)) = -90 \<and>
   maximumInput (snd (setInputRange (-90) 90 wrap_ctrl)) = 90 \<and>
   minimumOutput (snd (setOutputRange (-90) 90 wrap_ctrl)) = -90 \<and>
   maximumOutput (snd (setOutputRange (-90) 90 wrap_ctrl)) = 90"
proof -
  have h: "minimumInput wrap_ctrl = 0" "maximumInput wrap_ctrl = 360"
    by (simp_all add: ctrl_defs)
  from range_setters_spec [where mn = 360 and mx = 0 and s = wrap_ctrl]
    range_setters_spec [where mn = "-90" and mx = 90 and s = wrap_ctrl] h
  show ?thesis by simp
qed

subsection \<open>C7: the feed-forward term\<close>

text \<open>
  C7. For a displacement source, \<open>calculateFeedForward\<close> returns
  \<open>F * (setpoint - prevSetpoint) / t\<close> when the reading \<open>t\<close> of the setpoint timer is not
  zero and 0 when it is zero, and it does not raise; it leaves the controller with
  \<open>prevSetpoint\<close> equal to the setpoint and the timer reset (reading 0 at the same
  clock value), and changes nothing else. For a rate source it returns \<open>F * setpoint\<close>
  and leaves the controller as it was.
\<close>

theorem calculateFeedForward_spec:
  "(pidInput s = Some src \<and> getPIDSourceType src = kDisplacement \<longrightarrow>
      fst (calculateFeedForward now s) =
        Inr (if Timer_get now (setpointTimer s) \<noteq> 0
             then F s * (setpoint s - prevSetpoint s) / Timer_get now (setpointTimer s)
             else 0) \<and>
      snd (calculateFeedForward now s) = s\<lparr>prevSetpoint := setpoint s, setpointTimer := now\<rparr> \<and>
      prevSetpoint (snd (calculateFeedForward now s)) = setpoint s \<and>
      Timer_get now (setpointTimer (snd (calculateFeedForward now s))) = 0) \<and>
   (pidInput s = Some src \<and> getPIDSourceType src = kRate \<longrightarrow>
      calculateFeedForward now s = (Inr (F s * setpoint s), s))"
  by (simp add: calculateFeedForward_def getDeltaSetpoint_def getSetpoint_def Timer_get_def
      Timer_reset_def Let_def)

text \<open>
  The theorem at a displacement controller with \<open>F = 0.5\<close> whose setpoint went from 0 to
  10, read 2 time units after the timer started (2.5) and at the very start (0), and at a
  rate controller with the same gains (5).
\<close>

theorem calculateFeedForward_spec_witness:
  "pidInput ff_ctrl = Some angle_source \<and> getPIDSourceType angle_source = kDisplacement \<and>
   Timer_get 2 (setpointTimer ff_ctrl) = 2 \<and>
   fst (calculateFeedForward 2 ff_ctrl) = Inr 2.5 \<and>
   prevSetpoint ff_ctrl = 0 \<and>
   prevSetpoint (snd (calculateFeedForward 2 ff_ctrl)) = 10 \<and>
   Timer_get 0 (setpointTimer ff_ctrl) = 0 \<and>
   fst (calculateFeedForward 0 ff_ctrl) = Inr 0 \<and>
   pidInput ff_rate_ctrl = Some rate_source \<and> getPIDSourceType rate_source = kRate \<and>
   calculateFeedForward 2 ff_rate_ctrl = (Inr 5, ff_rate_ctrl)"
proof -
  have d: "pidInput ff_ctrl = Some angle_source" "getPIDSourceType angle_source = kDisplacement"
    "Timer_get 2 (setpointTimer ff_ctrl) = 2" "Timer_get 0 (setpointTimer ff_ctrl) = 0"
    "F ff_ctrl = 0.5" "setpoint ff_ctrl = 10" "prevSetpoint ff_ctrl = 0"
    by (simp_all add: ff_ctrl_def ctrl_defs getPIDSourceType_def Timer_get_def)
  have r: "pidInput ff_rate_ctrl = Some rate_source" "getPIDSourceType rate_source = kRate"
    "F ff_rate_ctrl = 0.5" "setpoint ff_rate_ctrl = 10"
    by (simp_all add: ff_rate_ctrl_def ctrl_defs getPIDSourceType_def)
  from calculateFeedForward_spec [where s = ff_ctrl and src = angle_source and now = 2] d
  have 1: "fst (calculateFeedForward 2 ff_ctrl) = Inr 2.5 \<and>
      prevSetpoint (snd (calculateFeedForward 2 ff_ctrl)) = 10"
    by simp
  from calculateFeedForward_spec [where s = ff_ctrl and src = angle_source and now = 0] d
  have 2: "fst (calculateFeedForward 0 ff_ctrl) = Inr 0"
    by simp
  from calculateFeedForward_spec [where s = ff_rate_ctrl and src = rate_source and now = 2] r
  have 3: "calculateFeedForward 2 ff_rate_ctrl = (Inr 5, ff_rate_ctrl)"
    by simp
  from 1 2 3 d r show ?thesis by simp
qed

subsection \<open>C8: setting the setpoint\<close>

lemma isAvgErrorValid_append:
  "0 < maxlen d \<Longrightarrow> elems (deque_append x d) \<noteq> []"
  by (simp add: deque_append_def Let_def)

text \<open>
  C8. \<open>setSetpoint(v)\<close> stores \<open>v\<close> clamped into the input range when
  \<open>maximumInput > minimumInput\<close> and \<open>v\<close> itself otherwise. In both cases the history
  is emptied with its capacity kept, so that \<open>isAvgErrorValid()\<close> is false, and the
  accumulator is zero. Appending a sample to a history whose capacity is not zero, as
  the next tick of an enabled controller does, makes \<open>isAvgErrorValid()\<close> true again.
\<close>

theorem setSetpoint_spec:
  "setpoint (setSetpoint v s) =
     (if maximumInput s > minimumInput s then clamp v (minimumInput s) (maximumInput s) else v) \<and>
   elems (buf (setSetpoint v s)) = [] \<and>
   maxlen (buf (setSetpoint v s)) = maxlen (buf s) \<and>
   \<not> isAvgErrorValid (setSetpoint v s) \<and>
   totalError (setSetpoint v s) = 0 \<and>
   (0 < maxlen (buf s) \<longrightarrow>
      isAvgErrorValid ((setSetpoint v s)\<lparr>buf := deque_append x (buf (setSetpoint v s))\<rparr>)) \<and>
   (0 < maxlen (buf s) \<and> enabled s \<and> pidInput s = Some src \<and> pidOutput s = Some written \<longrightarrow>
      isAvgErrorValid (snd (calculate input now (setSetpoint v s))))"
proof -
  let ?s = "setSetpoint v s"
  have f: "enabled ?s = enabled s" "pidInput ?s = pidInput s" "pidOutput ?s = pidOutput s"
    "buf ?s = deque_clear (buf s)"
    by (simp_all add: setSetpoint_def Let_def)
  have sp: "setpoint ?s =
     (if maximumInput s > minimumInput s then clamp v (minimumInput s) (maximumInput s) else v)"
    by (simp add: setSetpoint_def clamp_def Let_def max_def min_def)
  have b: "elems (buf ?s) = []" "maxlen (buf ?s) = maxlen (buf s)" "totalError ?s = 0"
    by (simp_all add: setSetpoint_def Let_def deque_clear_def)
  have tick: "isAvgErrorValid (snd (calculate input now ?s))"
    if "0 < maxlen (buf s)" "enabled s" "pidInput s = Some src" "pidOutput s = Some written"
  proof (cases "getPIDSourceType src = kRate")
    case True
    from that f have "enabled ?s" "pidInput ?s = Some src" "pidOutput ?s = Some written"
      by simp_all
    from calculate_rate [OF this True] that(1) b(2) show ?thesis
      by (simp add: Let_def isAvgErrorValid_def isAvgErrorValid_append)
  next
    case False
    from that f have "enabled ?s" "pidInput ?s = Some src" "pidOutput ?s = Some written"
      by simp_all
    from calculate_displacement [OF this False] that(1) b(2) show ?thesis
      by (simp add: Let_def isAvgErrorValid_def isAvgErrorValid_append)
  qed
  from sp b tick show ?thesis
    by (simp add: isAvgErrorValid_def isAvgErrorValid_append)
qed

text \<open>
  The theorem with the input range from 0 to 360 (400 is stored as 360, -5 as 0, 90 as
  90) and on a controller with a degenerate input range that has run one tick (400 is
  stored as it is, the history and the accumulator are cleared, and the next tick
  refills the history).
\<close>

theorem setSetpoint_spec_witness:
  "minimumInput wrap_ctrl < maximumInput wrap_ctrl \<and>
   setpoint (setSetpoint 400 wrap_ctrl) = 360 \<and>
   setpoint (setSetpoint (-5) wrap_ctrl) = 0 \<and>
   setpoint (setSetpoint 90 wrap_ctrl) = 90 \<and>
   \<not> minimumInput integ_ctrl < maximumInput integ_ctrl \<and>
   setpoint (setSetpoint 400 integ_ctrl) = 400 \<and>
   isAvgErrorValid integ_ctrl \<and> totalError integ_ctrl = 0.3 \<and>
   \<not> isAvgErrorValid (setSetpoint 400 integ_ctrl) \<and>
   totalError (setSetpoint 400 integ_ctrl) = 0 \<and>
   0 < maxlen (buf integ_ctrl) \<and> enabled integ_ctrl \<and>
   pidInput integ_ctrl = Some angle_source \<and> pidOutput integ_ctrl = Some [0.6] \<and>
   isAvgErrorValid (snd (calculate 0 2 (setSetpoint 400 integ_ctrl)))"
proof -
  note w = wrap_ctrl_fields and i = integ_ctrl_fields
  have v: "isAvgErrorValid integ_ctrl" by (simp add: isAvgErrorValid_def i)
  from setSetpoint_spec [where s = wrap_ctrl and v = 400 and x = 0 and src = angle_source
      and written = "[]" and input = 0 and now = 0]
    setSetpoint_spec [where s = wrap_ctrl and v = "-5" and x = 0 and src = angle_source
      and written = "[]" and input = 0 and now = 0]
    setSetpoint_spec [where s = wrap_ctrl and v = 90 and x = 0 and src = angle_source
      and written = "[]" and input = 0 and now = 0] w
  have 1: "setpoint (setSetpoint 400 wrap_ctrl) = 360 \<and>
      setpoint (setSetpoint (-5) wrap_ctrl) = 0 \<and> setpoint (setSetpoint 90 wrap_ctrl) = 90"
    by (simp add: clamp_def)
  from setSetpoint_spec [where s = integ_ctrl and v = 400 and x = 0 and src = angle_source
      and written = "[0.6]" and input = 0 and now = 2] i
  have 2: "setpoint (setSetpoint 400 integ_ctrl) = 400 \<and>
      \<not> isAvgErrorValid (setSetpoint 400 integ_ctrl) \<and>
      totalError (setSetpoint 400 integ_ctrl) = 0 \<and>
      isAvgErrorValid (snd (calculate 0 2 (setSetpoint 400 integ_ctrl)))"
    by simp
  from 1 2 v w i show ?thesis by simp
qed

subsection \<open>C9: disabling and resetting\<close>

text \<open>
  C9. On a controller whose output is attached, \<open>disable()\<close> calls the output exactly
  once, with 0, and leaves the controller disabled, whatever \<open>enabled\<close> was before;
  nothing else changes. \<open>reset()\<close> does the same and then sets \<open>prevError\<close>,
  \<open>totalError\<close> and \<open>result\<close> to 0; the error history is the one from before the call.
\<close>

theorem disable_reset_spec:
  "pidOutput s = Some written \<longrightarrow>
     disable s = (Inr (), s\<lparr>pidOutput := Some (written @ [0]), enabled := False\<rparr>) \<and>
     pidOutput (snd (disable s)) = Some (written @ [0]) \<and>
     \<not> enabled (snd (disable s)) \<and>
     reset s = (Inr (), (snd (disable s))\<lparr>prevError := 0, totalError := 0, result := 0\<rparr>) \<and>
     pidOutput (snd (reset s)) = Some (written @ [0]) \<and>
     \<not> enabled (snd (reset s)) \<and>
     prevError (snd (reset s)) = 0 \<and> totalError (snd (reset s)) = 0 \<and>
     result (snd (reset s)) = 0 \<and>
     buf (snd (reset s)) = buf s"
  by (simp add: disable_def reset_def Let_def)

text \<open>
  The theorem at an enabled controller that has run one tick and at a controller that
  was never enabled.
\<close>

theorem disable_reset_spec_witness:
  "enabled integ_ctrl \<and> pidOutput integ_ctrl = Some [0.6] \<and>
   pidOutput (snd (disable integ_ctrl)) = Some [0.6, 0] \<and>
   \<not> enabled (snd (disable integ_ctrl)) \<and>
   \<not> enabled wrap_ctrl \<and> pidOutput wrap_ctrl = Some [] \<and>
   pidOutput (snd (disable wrap_ctrl)) = Some [0] \<and>
   \<not> enabled (snd (disable wrap_ctrl)) \<and>
   fst (reset integ_ctrl) = Inr () \<and>
   pidOutput (snd (reset integ_ctrl)) = Some [0.6, 0] \<and>
   prevError integ_ctrl = 0.3 \<and> prevError (snd (reset integ_ctrl)) = 0 \<and>
   totalError integ_ctrl = 0.3 \<and> totalError (snd (reset integ_ctrl)) = 0 \<and>
   result integ_ctrl = 0.6 \<and> result (snd (reset integ_ctrl)) = 0 \<and>
   buf (snd (reset integ_ctrl)) = \<lparr>elems = [0.3], maxlen = 1\<rparr>"
proof -
  note w = wrap_ctrl_fields and i = integ_ctrl_fields
  from disable_reset_spec [of integ_ctrl "[0.6]"] disable_reset_spec [of wrap_ctrl "[]"] w i
  show ?thesis by simp
qed

subsection \<open>C10: a new input range clears the history\<close>

text \<open>
  C10. A call \<open>setInputRange(min, max)\<close> with \<open>min \<le> max\<close> returns normally and leaves
  the controller that \<open>setSetpoint\<close> of the current setpoint leaves once the bounds are
  stored: the history is empty, \<open>isAvgErrorValid()\<close> is false and the accumulator is 0,
  also when the setpoint lies within the new range and keeps its value.
\<close>

theorem setInputRange_clears_history:
  "mn \<le> mx \<longrightarrow>
     fst (setInputRange mn mx s) = Inr () \<and>
     setSetpoint (setpoint s) (s\<lparr>minimumInput := mn, maximumInput := mx\<rparr>) =
       snd (setInputRange mn mx s) \<and>
     elems (buf (snd (setInputRange mn mx s))) = [] \<and>
     totalError (snd (setInputRange mn mx s)) = 0 \<and>
     \<not> isAvgErrorValid (snd (setInputRange mn mx s)) \<and>
     (mn \<le> setpoint s \<and> setpoint s \<le> mx \<longrightarrow>
        setpoint (snd (setInputRange mn mx s)) = setpoint s)"
  by (simp add: setInputRange_def setSetpoint_def deque_clear_def isAvgErrorValid_def Let_def)

text \<open>
  The theorem at a controller that has run one tick (one sample in the history,
  accumulator 0.3, setpoint 0), given the input range from -1 to 1.
\<close>

theorem setInputRange_clears_history_witness:
  "(-1::real) \<le> 1 \<and> isAvgErrorValid integ_ctrl \<and> totalError integ_ctrl = 0.3 \<and>
   setpoint integ_ctrl = 0 \<and>
   fst (setInputRange (-1) 1 integ_ctrl) = Inr () \<and>
   setpoint (snd (setInputRange (-1) 1 integ_ctrl)) = 0 \<and>
   elems (buf (snd (setInputRange (-1) 1 integ_ctrl))) = [] \<and>
   totalError (snd (setInputRange (-1) 1 integ_ctrl)) = 0 \<and>
   \<not> isAvgErrorValid (snd (setInputRange (-1) 1 integ_ctrl))"
proof -
  note i = integ_ctrl_fields
  have v: "isAvgErrorValid integ_ctrl" by (simp add: isAvgErrorValid_def i)
  from setInputRange_clears_history [where mn = "-1" and mx = 1 and s = integ_ctrl] i v
  show ?thesis by simp
qed

end
